theory Spec2Isabelle
  imports Complex_Main
begin

section \<open>Data model\<close>

text \<open>
  The documents of the shop backend, as the Mongoose schemas declare them
  (models Product, Cart and Order).  A JavaScript \<^verbatim>\<open>Number\<close> is modelled as an
  exact rational, an \<^verbatim>\<open>ObjectId\<close> as a natural number and a \<^verbatim>\<open>Date\<close> as a
  number of milliseconds.  Field names carry a prefix where two schemas use
  the same name.  Only the fields the order, cart and payment flows read or
  write are kept, and the product's rating, which its schema constrains.

  \<^verbatim>\<open>save\<close> and \<^verbatim>\<open>create\<close> validate a document against its schema before the
  schema's pre-save hooks run, and throw when it fails.  This is modelled
  where a handler saves a product and where it creates an order.  A cart or
  an order loaded from the store is taken to pass its validators, and the
  handlers assign it only values that pass them.  E-mails are not modelled.
\<close>

type_synonym oid = nat
type_synonym date = nat
type_synonym number = rat

record inventory =
  quantity :: number
  lowStockThreshold :: number
  trackQuantity :: bool

record product =
  p_name :: string
  p_price :: number
  weight_value :: number
  images :: "string list"
  inventory :: inventory
  isActive :: bool
  averageRating :: number

record cart_item =
  ci_product :: oid
  ci_quantity :: number
  ci_price :: number
  ci_totalPrice :: number

record cart =
  c_user :: oid
  c_items :: "cart_item list"
  totalItems :: number
  totalAmount :: number
  lastModified :: date

record order_item =
  oi_product :: oid
  oi_name :: string
  oi_image :: string
  oi_price :: number
  oi_quantity :: number
  oi_totalPrice :: number

datatype status =
  Pending | Confirmed | Processing | Shipped | Delivered | Cancelled | Refunded

datatype payment_method = Stripe | Paypal | Cash

record address =
  a_name :: string
  street :: string
  city :: string
  state :: string
  zipCode :: string
  country :: string
  phone :: string

record payment_info =
  pay_method :: payment_method
  transactionId :: "string option"
  paidAt :: "date option"

record history_entry =
  h_status :: status
  h_date :: date
  h_note :: "string option"

record order =
  orderNumber :: string
  o_user :: oid
  o_items :: "order_item list"
  shippingAddress :: address
  paymentInfo :: payment_info
  itemsPrice :: number
  taxPrice :: number
  shippingPrice :: number
  o_totalPrice :: number
  status :: status
  isPaid :: bool
  isDelivered :: bool
  deliveredAt :: "date option"
  o_notes :: "string option"
  trackingNumber :: "string option"
  estimatedDelivery :: "date option"
  statusHistory :: "history_entry list"

text \<open>
  The document store: products and orders by \<^verbatim>\<open>_id\<close>, carts by their owner
  (the cart schema makes \<^verbatim>\<open>user\<close> unique, and every handler finds the cart
  with \<^verbatim>\<open>Cart.findOne({ user })\<close>).
\<close>

record store =
  products :: "oid \<rightharpoonup> product"
  carts :: "oid \<rightharpoonup> cart"
  orders :: "oid \<rightharpoonup> order"

text \<open>
  What a request reads from outside the store: the clock (\<^verbatim>\<open>new Date()\<close>,
  \<^verbatim>\<open>Date.now()\<close>; one reading per request), the random number of the order
  number and the \<^verbatim>\<open>_id\<close> the store gives a new order.
\<close>

record env =
  now :: date
  random :: nat
  freshId :: oid

datatype role = Customer | Admin

text \<open>The authenticated caller (\<^verbatim>\<open>req.user\<close>, set by the \<^verbatim>\<open>protect\<close> middleware).\<close>

record caller =
  uid :: oid
  role :: role

text \<open>The responses that are not a success, one constructor per message.\<close>

datatype error =
    ValidationFailed "string list"
  | CartEmpty
  | ProductUnavailable string
  | OnlyAvailableFor number string
  | OnlyAvailableInStock number
  | ProductNotFound
  | CartNotFound
  | ItemNotInCart
  | OrderNotFound
  | NotAuthorized
  | CannotBeCancelled
  | PaymentNotSuccessful
  | ServerError

section \<open>Order model: the pre-save hooks\<close>

text \<open>JavaScript truthiness of an optional string: absent and empty are falsy.\<close>

definition truthy :: "string option \<Rightarrow> bool" where
  "truthy v = (case v of None \<Rightarrow> False | Some s \<Rightarrow> s \<noteq> [])"

function toString :: "nat \<Rightarrow> string" where
  "toString n =
     (if n < 10 then [''0123456789'' ! n]
      else toString (n div 10) @ [''0123456789'' ! (n mod 10)])"
  by pat_completeness auto
termination
  by (relation "measure id") auto

declare toString.simps [simp del]

definition slice_last :: "nat \<Rightarrow> string \<Rightarrow> string" where
  "slice_last k s = drop (length s - k) s"

definition padStart :: "nat \<Rightarrow> char \<Rightarrow> string \<Rightarrow> string" where
  "padStart k c s = replicate (k - length s) c @ s"

text \<open>First hook: generate the order number when the document has none.\<close>

definition orderNumberHook :: "env \<Rightarrow> order \<Rightarrow> order" where
  "orderNumberHook e od =
     (if orderNumber od = [] then
        od\<lparr>orderNumber :=
             ''MS'' @ slice_last 6 (toString (now e)) @ padStart 3 (CHR ''0'') (toString (random e))\<rparr>
      else od)"

text \<open>
  Second hook: \<^verbatim>\<open>if (this.isModified("status") && !this.isNew)\<close> push the new
  status.  The two tests are parameters; \<^verbatim>\<open>save\<close> below supplies them.
\<close>

definition statusHistoryHook :: "bool \<Rightarrow> bool \<Rightarrow> env \<Rightarrow> order \<Rightarrow> order" where
  "statusHistoryHook statusModified isNew e od =
     (if statusModified \<and> \<not> isNew then
        od\<lparr>statusHistory :=
             statusHistory od @ [\<lparr>h_status = status od, h_date = now e, h_note = None\<rparr>]\<rparr>
      else od)"

text \<open>Third hook: stamp the delivery.\<close>

definition deliveredHook :: "env \<Rightarrow> order \<Rightarrow> order" where
  "deliveredHook e od =
     (if status od = Delivered \<and> \<not> isDelivered od then
        od\<lparr>isDelivered := True, deliveredAt := Some (now e)\<rparr>
      else od)"

text \<open>
  \<^verbatim>\<open>order.save()\<close> on a document loaded from the store: the three hooks in the
  order of their registration.  \<^verbatim>\<open>isModified("status")\<close> holds when the status
  assigned differs from the one loaded; the document is not new.
\<close>

definition order_save :: "env \<Rightarrow> order \<Rightarrow> order \<Rightarrow> order" where
  "order_save e loaded od =
     deliveredHook e (statusHistoryHook (status od \<noteq> status loaded) False e (orderNumberHook e od))"

text \<open>
  The validation of a new order.  The schema requires \<^verbatim>\<open>orderNumber\<close>.  The
  validators of the other fields are left out: a document without an order
  number fails whatever they say.
\<close>

definition order_valid :: "order \<Rightarrow> bool" where
  "order_valid od \<longleftrightarrow> orderNumber od \<noteq> []"

text \<open>
  \<^verbatim>\<open>Order.create(doc)\<close>: validation first, then the same hooks on the new
  document (\<^verbatim>\<open>isNew\<close> holds, which alone decides the second hook).  \<open>None\<close>
  stands for the \<^verbatim>\<open>ValidationError\<close> thrown, before any hook has run and with
  nothing stored.
\<close>

definition order_create :: "env \<Rightarrow> order \<Rightarrow> order option" where
  "order_create e od =
     (if order_valid od
      then Some (deliveredHook e (statusHistoryHook True True e (orderNumberHook e od)))
      else None)"

section \<open>Product model: validation on save\<close>

text \<open>
  \<^verbatim>\<open>product.save()\<close> validates every path of the loaded document, modified or
  not.  The validators of the fields kept here: the name is required and has
  at most 100 characters; price, weight and stock are at least 0; the rating
  is at least 1 and at most 5.  (The schema gives the rating the default 0,
  and \<^verbatim>\<open>Review.getAverageRating\<close> writes 0 for a product without approved
  reviews, through an update that runs no validator.)  The image
  subdocuments are taken to pass.
\<close>

definition product_valid :: "product \<Rightarrow> bool" where
  "product_valid p \<longleftrightarrow>
     p_name p \<noteq> [] \<and> length (p_name p) \<le> 100 \<and>
     0 \<le> p_price p \<and> 0 \<le> weight_value p \<and>
     0 \<le> quantity (inventory p) \<and>
     1 \<le> averageRating p \<and> averageRating p \<le> 5"

section \<open>Cart model: the pre-save hooks\<close>

text \<open>The hook of the line-item schema.\<close>

definition cartItemHook :: "cart_item \<Rightarrow> cart_item" where
  "cartItemHook it = it\<lparr>ci_totalPrice := ci_quantity it * ci_price it\<rparr>"

text \<open>The hook of the cart schema; each \<^verbatim>\<open>reduce\<close> is a left fold from 0.\<close>

definition cartHook :: "env \<Rightarrow> cart \<Rightarrow> cart" where
  "cartHook e c =
     c\<lparr>totalItems := foldl (\<lambda>total it. total + ci_quantity it) 0 (c_items c),
       totalAmount := foldl (\<lambda>total it. total + ci_totalPrice it) 0 (c_items c),
       lastModified := now e\<rparr>"

text \<open>
  \<^verbatim>\<open>cart.save()\<close>: the hooks of the subdocuments run before the hook of the
  document that holds them.
\<close>

definition cart_save :: "env \<Rightarrow> cart \<Rightarrow> cart" where
  "cart_save e c = cartHook e (c\<lparr>c_items := map cartItemHook (c_items c)\<rparr>)"

text \<open>\<^verbatim>\<open>Cart.create({ user, items: [] })\<close>, with the defaults of the schema.\<close>

definition cart_create :: "env \<Rightarrow> oid \<Rightarrow> cart" where
  "cart_create e u =
     cart_save e \<lparr>c_user = u, c_items = [], totalItems = 0, totalAmount = 0, lastModified = now e\<rparr>"

section \<open>Cart controller\<close>

text \<open>
  \<^verbatim>\<open>let cart = await Cart.findOne({ user }); if (!cart) cart = await Cart.create(...)\<close>,
  the opening of \<^verbatim>\<open>getCart\<close>, \<^verbatim>\<open>addToCart\<close>, \<^verbatim>\<open>clearCart\<close> and \<^verbatim>\<open>syncCart\<close>.
\<close>

definition findOrCreateCart :: "env \<Rightarrow> oid \<Rightarrow> store \<Rightarrow> cart \<times> store" where
  "findOrCreateCart e u s =
     (case carts s u of
        Some c \<Rightarrow> (c, s)
      | None \<Rightarrow> (cart_create e u, s\<lparr>carts := (carts s)(u \<mapsto> cart_create e u)\<rparr>))"

text \<open>\<^verbatim>\<open>Array.prototype.findIndex\<close>; \<open>None\<close> stands for \<open>-1\<close>.\<close>

fun findIndex :: "('a \<Rightarrow> bool) \<Rightarrow> 'a list \<Rightarrow> nat option" where
  "findIndex P [] = None"
| "findIndex P (x # xs) =
     (if P x then Some 0 else map_option Suc (findIndex P xs))"

definition productActive :: "store \<Rightarrow> oid \<Rightarrow> bool" where
  "productActive s pid = (case products s pid of None \<Rightarrow> False | Some p \<Rightarrow> isActive p)"

definition getCart :: "caller \<Rightarrow> env \<Rightarrow> store \<Rightarrow> (error + cart) \<times> store" where
  "getCart u e s =
     (let (cart, s1) = findOrCreateCart e (uid u) s;
          activeItems = filter (\<lambda>it. productActive s (ci_product it)) (c_items cart)
      in if length activeItems \<noteq> length (c_items cart) then
           let saved = cart_save e (cart\<lparr>c_items := activeItems\<rparr>)
           in (Inr saved, s1\<lparr>carts := (carts s1)(uid u \<mapsto> saved)\<rparr>)
         else (Inr cart, s1))"

definition addToCart ::
  "caller \<Rightarrow> env \<Rightarrow> string list \<Rightarrow> oid \<Rightarrow> number \<Rightarrow> store \<Rightarrow> (error + cart) \<times> store" where
  "addToCart u e errors productId qty s =
     (if errors \<noteq> [] then (Inl (ValidationFailed errors), s)
      else case products s productId of
        None \<Rightarrow> (Inl ProductNotFound, s)
      | Some p \<Rightarrow>
          if \<not> isActive p then (Inl ProductNotFound, s)
          else if trackQuantity (inventory p) \<and> quantity (inventory p) < qty then
            (Inl (OnlyAvailableInStock (quantity (inventory p))), s)
          else
            let (cart, s1) = findOrCreateCart e (uid u) s in
            (case findIndex (\<lambda>it. ci_product it = productId) (c_items cart) of
               Some i \<Rightarrow>
                 let newQuantity = ci_quantity (c_items cart ! i) + qty in
                 if trackQuantity (inventory p) \<and> quantity (inventory p) < newQuantity then
                   (Inl (OnlyAvailableInStock (quantity (inventory p))), s1)
                 else
                   let saved = cart_save e (cart\<lparr>c_items := (c_items cart)
                         [i := (c_items cart ! i)\<lparr>ci_quantity := newQuantity, ci_price := p_price p,
                                                  ci_totalPrice := newQuantity * p_price p\<rparr>]\<rparr>)
                   in (Inr saved, s1\<lparr>carts := (carts s1)(uid u \<mapsto> saved)\<rparr>)
             | None \<Rightarrow>
                 let saved = cart_save e (cart\<lparr>c_items := c_items cart @
                       [\<lparr>ci_product = productId, ci_quantity = qty, ci_price = p_price p,
                         ci_totalPrice = qty * p_price p\<rparr>]\<rparr>)
                 in (Inr saved, s1\<lparr>carts := (carts s1)(uid u \<mapsto> saved)\<rparr>)))"

definition updateCartItem ::
  "caller \<Rightarrow> env \<Rightarrow> string list \<Rightarrow> oid \<Rightarrow> number \<Rightarrow> store \<Rightarrow> (error + cart) \<times> store" where
  "updateCartItem u e errors productId qty s =
     (if errors \<noteq> [] then (Inl (ValidationFailed errors), s)
      else case carts s (uid u) of
        None \<Rightarrow> (Inl CartNotFound, s)
      | Some cart \<Rightarrow>
          (case findIndex (\<lambda>it. ci_product it = productId) (c_items cart) of
             None \<Rightarrow> (Inl ItemNotInCart, s)
           | Some i \<Rightarrow>
               (case products s productId of
                  None \<Rightarrow> (Inl ProductNotFound, s)
                | Some p \<Rightarrow>
                    if \<not> isActive p then (Inl ProductNotFound, s)
                    else if trackQuantity (inventory p) \<and> quantity (inventory p) < qty then
                      (Inl (OnlyAvailableInStock (quantity (inventory p))), s)
                    else
                      let saved = cart_save e (cart\<lparr>c_items := (c_items cart)
                            [i := (c_items cart ! i)\<lparr>ci_quantity := qty, ci_price := p_price p,
                                                     ci_totalPrice := qty * p_price p\<rparr>]\<rparr>)
                      in (Inr saved, s\<lparr>carts := (carts s)(uid u \<mapsto> saved)\<rparr>))))"

definition removeFromCart :: "caller \<Rightarrow> env \<Rightarrow> oid \<Rightarrow> store \<Rightarrow> (error + cart) \<times> store" where
  "removeFromCart u e productId s =
     (case carts s (uid u) of
        None \<Rightarrow> (Inl CartNotFound, s)
      | Some cart \<Rightarrow>
          let saved = cart_save e
                (cart\<lparr>c_items := filter (\<lambda>it. ci_product it \<noteq> productId) (c_items cart)\<rparr>)
          in (Inr saved, s\<lparr>carts := (carts s)(uid u \<mapsto> saved)\<rparr>))"

definition clearCart :: "caller \<Rightarrow> env \<Rightarrow> store \<Rightarrow> (error + cart) \<times> store" where
  "clearCart u e s =
     (let (cart, s1) = findOrCreateCart e (uid u) s;
          saved = cart_save e (cart\<lparr>c_items := []\<rparr>)
      in (Inr saved, s1\<lparr>carts := (carts s1)(uid u \<mapsto> saved)\<rparr>))"

text \<open>
  The loop of \<^verbatim>\<open>syncCart\<close> over the client's lines (product id, quantity), with
  its two accumulators: the lines kept and the messages for the lines dropped.
\<close>

fun syncLines ::
  "store \<Rightarrow> (oid \<times> number) list \<Rightarrow> cart_item list \<Rightarrow> error list \<Rightarrow> cart_item list \<times> error list" where
  "syncLines s [] newCartItems syncErrors = (newCartItems, syncErrors)"
| "syncLines s ((productId, qty) # rest) newCartItems syncErrors =
     (case products s productId of
        None \<Rightarrow> syncLines s rest newCartItems (syncErrors @ [ProductNotFound])
      | Some p \<Rightarrow>
          if \<not> isActive p then syncLines s rest newCartItems (syncErrors @ [ProductNotFound])
          else if trackQuantity (inventory p) \<and> quantity (inventory p) < qty then
            syncLines s rest newCartItems
              (syncErrors @ [OnlyAvailableFor (quantity (inventory p)) (p_name p)])
          else
            syncLines s rest
              (newCartItems @ [\<lparr>ci_product = productId, ci_quantity = qty, ci_price = p_price p,
                                 ci_totalPrice = qty * p_price p\<rparr>])
              syncErrors)"

definition syncCart ::
  "caller \<Rightarrow> env \<Rightarrow> string list \<Rightarrow> (oid \<times> number) list \<Rightarrow> store
     \<Rightarrow> (error + cart \<times> error list) \<times> store" where
  "syncCart u e errors lines s =
     (if errors \<noteq> [] then (Inl (ValidationFailed errors), s)
      else
        let (cart, s1) = findOrCreateCart e (uid u) s;
            (newCartItems, syncErrors) = syncLines s lines [] [];
            saved = cart_save e (cart\<lparr>c_items := newCartItems\<rparr>)
        in (Inr (saved, syncErrors), s1\<lparr>carts := (carts s1)(uid u \<mapsto> saved)\<rparr>))"

section \<open>Order controller: status update\<close>

record status_request =
  sr_status :: status
  sr_note :: "string option"
  sr_trackingNumber :: "string option"
  sr_estimatedDelivery :: "date option"

text \<open>
  \<^verbatim>\<open>updateOrderStatus\<close> (the orders controller and the admin controller hold
  the same code; the first also sends an e-mail).  The first argument is the
  list of validation errors of the request.
\<close>

definition updateOrderStatus ::
  "env \<Rightarrow> string list \<Rightarrow> oid \<Rightarrow> status_request \<Rightarrow> store \<Rightarrow> (error + order) \<times> store" where
  "updateOrderStatus e errors orderId req s =
     (if errors \<noteq> [] then (Inl (ValidationFailed errors), s)
      else case orders s orderId of
        None \<Rightarrow> (Inl OrderNotFound, s)
      | Some loaded \<Rightarrow>
          let o1 = loaded\<lparr>status := sr_status req\<rparr>;
              o2 = (if truthy (sr_note req) then
                      o1\<lparr>statusHistory := statusHistory o1 @
                           [\<lparr>h_status = sr_status req, h_date = now e, h_note = sr_note req\<rparr>]\<rparr>
                    else o1);
              o3 = (if truthy (sr_trackingNumber req) then
                      o2\<lparr>trackingNumber := sr_trackingNumber req\<rparr> else o2);
              o4 = (case sr_estimatedDelivery req of
                      Some d \<Rightarrow> o3\<lparr>estimatedDelivery := Some d\<rparr> | None \<Rightarrow> o3);
              saved = order_save e loaded o4
          in (Inr saved, s\<lparr>orders := (orders s)(orderId \<mapsto> saved)\<rparr>))"

section \<open>Order controller: placement\<close>

record order_request =
  or_shippingAddress :: address
  or_paymentMethod :: payment_method
  or_notes :: "string option"

text \<open>\<^verbatim>\<open>product.images[0]?.url || "/placeholder.svg"\<close>; an image is kept by its url.\<close>

definition primaryImage :: "product \<Rightarrow> string" where
  "primaryImage p =
     (case images p of [] \<Rightarrow> ''/placeholder.svg''
      | url # _ \<Rightarrow> if url = [] then ''/placeholder.svg'' else url)"

text \<open>The order line \<^verbatim>\<open>orderItem\<close> that \<^verbatim>\<open>createOrder\<close> builds from a cart line and its product.\<close>

definition orderItem :: "product \<Rightarrow> cart_item \<Rightarrow> order_item" where
  "orderItem p cartItem =
     \<lparr>oi_product = ci_product cartItem, oi_name = p_name p, oi_image = primaryImage p,
      oi_price = p_price p, oi_quantity = ci_quantity cartItem,
      oi_totalPrice = p_price p * ci_quantity cartItem\<rparr>"

text \<open>
  Local variables that share a name with a field of the order carry a prime.
  The first loop of \<^verbatim>\<open>createOrder\<close>: validate each cart line against its
  (populated) product and snapshot it, with the accumulators \<^verbatim>\<open>orderItems\<close> and
  \<^verbatim>\<open>itemsPrice\<close>.  The first line that fails ends the request.
\<close>

fun orderLines ::
  "store \<Rightarrow> cart_item list \<Rightarrow> order_item list \<Rightarrow> number \<Rightarrow> error + order_item list \<times> number" where
  "orderLines s [] orderItems itemsPrice' = Inr (orderItems, itemsPrice')"
| "orderLines s (cartItem # rest) orderItems itemsPrice' =
     (case products s (ci_product cartItem) of
        None \<Rightarrow> Inl (ProductUnavailable ''unknown'')
      | Some p \<Rightarrow>
          if \<not> isActive p then
            Inl (ProductUnavailable (if p_name p = [] then ''unknown'' else p_name p))
          else if trackQuantity (inventory p) \<and> quantity (inventory p) < ci_quantity cartItem then
            Inl (OnlyAvailableFor (quantity (inventory p)) (p_name p))
          else
            orderLines s rest (orderItems @ [orderItem p cartItem])
              (itemsPrice' + oi_totalPrice (orderItem p cartItem)))"

text \<open>\<^verbatim>\<open>Math.round\<close>: the nearest integer, a half rounded up.\<close>

definition Math_round :: "number \<Rightarrow> number" where
  "Math_round x = of_int \<lfloor>x + 1 / 2\<rfloor>"

text \<open>
  The document \<^verbatim>\<open>createOrder\<close> passes to \<^verbatim>\<open>Order.create\<close>: the prices computed
  from \<^verbatim>\<open>itemsPrice\<close>, the fields of the request, and the defaults of the schema
  for the fields it does not give.  It gives no order number.
\<close>

definition orderDocument :: "caller \<Rightarrow> order_request \<Rightarrow> order_item list \<Rightarrow> number \<Rightarrow> order" where
  "orderDocument u req orderItems itemsPrice' =
     (let taxRate = 8 / 100;
          taxPrice' = Math_round (itemsPrice' * taxRate * 100) / 100;
          shippingPrice' = (if itemsPrice' > 100 then 0 else 10);
          totalPrice' = itemsPrice' + taxPrice' + shippingPrice'
      in \<lparr>orderNumber = [], o_user = uid u, o_items = orderItems,
          shippingAddress = or_shippingAddress req,
          paymentInfo = \<lparr>pay_method = or_paymentMethod req, transactionId = None,
                         paidAt = None\<rparr>,
          itemsPrice = itemsPrice', taxPrice = taxPrice',
          shippingPrice = shippingPrice', o_totalPrice = totalPrice',
          status = Pending, isPaid = False, isDelivered = False,
          deliveredAt = None, o_notes = or_notes req, trackingNumber = None,
          estimatedDelivery = None, statusHistory = []\<rparr>)"

text \<open>
  \<^verbatim>\<open>createOrder\<close> up to its call of \<^verbatim>\<open>Order.create\<close>: the checks of the request
  and of the cart, the first loop and the prices.  It writes nothing.  The
  result is the response of a failed check, or the cart found and the
  document built.
\<close>

definition placementDocument ::
  "caller \<Rightarrow> string list \<Rightarrow> order_request \<Rightarrow> store \<Rightarrow> error + cart \<times> order" where
  "placementDocument u errors req s =
     (if errors \<noteq> [] then Inl (ValidationFailed errors)
      else case carts s (uid u) of
        None \<Rightarrow> Inl CartEmpty
      | Some cart \<Rightarrow>
          if c_items cart = [] then Inl CartEmpty
          else
            (case orderLines s (c_items cart) [] 0 of
               Inl err \<Rightarrow> Inl err
             | Inr (orderItems, itemsPrice') \<Rightarrow>
                 Inr (cart, orderDocument u req orderItems itemsPrice')))"

text \<open>
  The second loop of \<^verbatim>\<open>createOrder\<close>: take each line's quantity from its
  product's stock and save the product.  The populated product documents are
  shared by the lines that name the same product, and nothing else writes
  during the request, so each step reads the stock the step before wrote.
  A save that fails validation throws: the loop stops, with the earlier
  saves stored.  The result says whether the loop came to its end.
\<close>

fun decrementStock ::
  "(oid \<rightharpoonup> product) \<Rightarrow> cart_item list \<Rightarrow> bool \<times> (oid \<rightharpoonup> product)" where
  "decrementStock ps [] = (True, ps)"
| "decrementStock ps (cartItem # rest) =
     (case ps (ci_product cartItem) of
        None \<Rightarrow> decrementStock ps rest
      | Some p \<Rightarrow>
          if trackQuantity (inventory p) then
            let p' = p\<lparr>inventory := (inventory p)
                         \<lparr>quantity := quantity (inventory p) - ci_quantity cartItem\<rparr>\<rparr>
            in if product_valid p' then decrementStock (ps(ci_product cartItem \<mapsto> p')) rest
               else (False, ps)
          else decrementStock ps rest)"

text \<open>
  \<^verbatim>\<open>createOrder\<close>.  Whatever throws inside the handler is caught and answered
  with status 500; what was stored before stays stored.
\<close>

definition createOrder ::
  "caller \<Rightarrow> env \<Rightarrow> string list \<Rightarrow> order_request \<Rightarrow> store \<Rightarrow> (error + order) \<times> store" where
  "createOrder u e errors req s =
     (case placementDocument u errors req s of
        Inl err \<Rightarrow> (Inl err, s)
      | Inr (cart, doc) \<Rightarrow>
          (case order_create e doc of
             None \<Rightarrow> (Inl ServerError, s)
           | Some created \<Rightarrow>
               let s1 = s\<lparr>orders := (orders s)(freshId e \<mapsto> created)\<rparr> in
               (case decrementStock (products s1) (c_items cart) of
                  (False, ps) \<Rightarrow> (Inl ServerError, s1\<lparr>products := ps\<rparr>)
                | (True, ps) \<Rightarrow>
                    let s2 = s1\<lparr>products := ps\<rparr>;
                        saved = cart_save e (cart\<lparr>c_items := []\<rparr>);
                        s3 = s2\<lparr>carts := (carts s2)(uid u \<mapsto> saved)\<rparr>
                    in (Inr created, s3))))"

section \<open>Order controller: cancellation\<close>

text \<open>
  The loop of \<^verbatim>\<open>cancelOrder\<close>: each line finds its product again
  (\<^verbatim>\<open>Product.findById\<close>) and, when it exists and tracks its quantity, gives the
  line's quantity back and saves the product.  A save that fails validation
  throws: the loop stops, with the earlier saves stored.  The result says
  whether the loop came to its end.
\<close>

fun restoreStock ::
  "(oid \<rightharpoonup> product) \<Rightarrow> order_item list \<Rightarrow> bool \<times> (oid \<rightharpoonup> product)" where
  "restoreStock ps [] = (True, ps)"
| "restoreStock ps (item # rest) =
     (case ps (oi_product item) of
        None \<Rightarrow> restoreStock ps rest
      | Some p \<Rightarrow>
          if trackQuantity (inventory p) then
            let p' = p\<lparr>inventory := (inventory p)
                         \<lparr>quantity := quantity (inventory p) + oi_quantity item\<rparr>\<rparr>
            in if product_valid p' then restoreStock (ps(oi_product item \<mapsto> p')) rest
               else (False, ps)
          else restoreStock ps rest)"

text \<open>
  \<^verbatim>\<open>cancelOrder\<close>.  The order is saved after the loop; when a product's save
  throws, the handler answers with status 500 and the order stays as it was.
\<close>

definition cancelOrder :: "caller \<Rightarrow> env \<Rightarrow> oid \<Rightarrow> store \<Rightarrow> (error + order) \<times> store" where
  "cancelOrder u e orderId s =
     (case orders s orderId of
        None \<Rightarrow> (Inl OrderNotFound, s)
      | Some loaded \<Rightarrow>
          if o_user loaded \<noteq> uid u \<and> role u \<noteq> Admin then (Inl NotAuthorized, s)
          else if status loaded \<notin> {Pending, Confirmed} then (Inl CannotBeCancelled, s)
          else
            let o1 = loaded\<lparr>status := Cancelled,
                            statusHistory := statusHistory loaded @
                              [\<lparr>h_status = Cancelled, h_date = now e,
                                h_note = Some (if role u = Admin then ''Cancelled by admin''
                                               else ''Cancelled by customer'')\<rparr>]\<rparr>
            in (case restoreStock (products s) (o_items loaded) of
                  (False, ps) \<Rightarrow> (Inl ServerError, s\<lparr>products := ps\<rparr>)
                | (True, ps) \<Rightarrow>
                    let s1 = s\<lparr>products := ps\<rparr>;
                        saved = order_save e loaded o1
                    in (Inr saved, s1\<lparr>orders := (orders s1)(orderId \<mapsto> saved)\<rparr>)))"

section \<open>Payment\<close>

text \<open>
  \<^verbatim>\<open>confirmPayment\<close>.  What the payment gateway answers to
  \<^verbatim>\<open>paymentIntents.retrieve\<close> is an input: the status of the intent, or nothing
  when the call throws.
\<close>

definition confirmPayment ::
  "caller \<Rightarrow> env \<Rightarrow> oid \<Rightarrow> string \<Rightarrow> string option \<Rightarrow> store \<Rightarrow> (error + order) \<times> store" where
  "confirmPayment u e orderId paymentIntentId retrieved s =
     (case orders s orderId of
        None \<Rightarrow> (Inl OrderNotFound, s)
      | Some loaded \<Rightarrow>
          if o_user loaded \<noteq> uid u then (Inl NotAuthorized, s)
          else
            (case retrieved of
               None \<Rightarrow> (Inl ServerError, s)
             | Some intentStatus \<Rightarrow>
                 if intentStatus = ''succeeded'' then
                   let o1 = loaded\<lparr>isPaid := True,
                                   paymentInfo := (paymentInfo loaded)
                                     \<lparr>transactionId := Some paymentIntentId, paidAt := Some (now e)\<rparr>,
                                   status := Confirmed\<rparr>;
                       saved = order_save e loaded o1
                   in (Inr saved, s\<lparr>orders := (orders s)(orderId \<mapsto> saved)\<rparr>)
                 else (Inl PaymentNotSuccessful, s)))"

text \<open>
  The webhook's \<^verbatim>\<open>handlePaymentSuccess\<close>, run for a \<^verbatim>\<open>payment_intent.succeeded\<close>
  event.  The intent carries its id and, in its metadata, the order's id.
\<close>

record payment_intent =
  pi_id :: string
  pi_orderId :: oid

definition handlePaymentSuccess :: "env \<Rightarrow> payment_intent \<Rightarrow> store \<Rightarrow> store" where
  "handlePaymentSuccess e paymentIntent s =
     (case orders s (pi_orderId paymentIntent) of
        None \<Rightarrow> s
      | Some loaded \<Rightarrow>
          let o1 = loaded\<lparr>isPaid := True,
                          paymentInfo := (paymentInfo loaded)
                            \<lparr>transactionId := Some (pi_id paymentIntent), paidAt := Some (now e)\<rparr>,
                          status := Confirmed\<rparr>;
              saved = order_save e loaded o1
          in s\<lparr>orders := (orders s)(pi_orderId paymentIntent \<mapsto> saved)\<rparr>)"

section \<open>Shipping utility\<close>

text \<open>
  \<^verbatim>\<open>calculateShipping\<close> of \<^verbatim>\<open>utils/calculateShipping.js\<close>, over cart lines
  paired with their populated products.  No controller calls it.
\<close>

definition calculateShipping :: "(cart_item \<times> product) list \<Rightarrow> number" where
  "calculateShipping items =
     (let totalWeight = foldl (\<lambda>total (it, p). total + weight_value p * ci_quantity it) 0 items;
          itemsTotal = foldl (\<lambda>total (it, p). total + ci_totalPrice it) 0 items
      in if itemsTotal \<ge> 100 then 0
         else
           let shippingCost = (if totalWeight > 10
                               then 10 + of_int \<lceil>(totalWeight - 10) / 5\<rceil> * 5 else 10)
           in min shippingCost 50)"

section \<open>Example documents\<close>

text \<open>
  The shop of the specification's example: product A (price 10) and product B
  (price 5), both tracking their stock and rated 4, and account 1 with the
  cart [(A, 2), (B, 1)].
\<close>

definition productA :: product where
  "productA = \<lparr>p_name = ''A'', p_price = 10, weight_value = 1, images = [''a.png''],
     inventory = \<lparr>quantity = 5, lowStockThreshold = 10, trackQuantity = True\<rparr>,
     isActive = True, averageRating = 4\<rparr>"

definition productB :: product where
  "productB = \<lparr>p_name = ''B'', p_price = 5, weight_value = 30, images = [],
     inventory = \<lparr>quantity = 3, lowStockThreshold = 10, trackQuantity = True\<rparr>,
     isActive = True, averageRating = 4\<rparr>"

definition cart1 :: cart where
  "cart1 = \<lparr>c_user = 1,
     c_items = [\<lparr>ci_product = 10, ci_quantity = 2, ci_price = 10, ci_totalPrice = 20\<rparr>,
                \<lparr>ci_product = 11, ci_quantity = 1, ci_price = 5, ci_totalPrice = 5\<rparr>],
     totalItems = 3, totalAmount = 25, lastModified = 1000\<rparr>"

definition address1 :: address where
  "address1 = \<lparr>a_name = ''Ann'', street = ''1 Main St'', city = ''Austin'', state = ''TX'',
     zipCode = ''73301'', country = ''USA'', phone = ''5125550100''\<rparr>"

text \<open>An order of account 1 for the same two lines, still pending and unpaid.\<close>

definition order1 :: order where
  "order1 = \<lparr>orderNumber = ''MS000100007'', o_user = 1,
     o_items = [\<lparr>oi_product = 10, oi_name = ''A'', oi_image = ''a.png'', oi_price = 10,
                  oi_quantity = 2, oi_totalPrice = 20\<rparr>,
                \<lparr>oi_product = 11, oi_name = ''B'', oi_image = ''/placeholder.svg'', oi_price = 5,
                  oi_quantity = 1, oi_totalPrice = 5\<rparr>],
     shippingAddress = address1,
     paymentInfo = \<lparr>pay_method = Stripe, transactionId = None, paidAt = None\<rparr>,
     itemsPrice = 25, taxPrice = 2, shippingPrice = 10, o_totalPrice = 37,
     status = Pending, isPaid = False, isDelivered = False, deliveredAt = None,
     o_notes = None, trackingNumber = None, estimatedDelivery = None, statusHistory = []\<rparr>"

definition store1 :: store where
  "store1 = \<lparr>products = [10 \<mapsto> productA, 11 \<mapsto> productB],
              carts = [1 \<mapsto> cart1],
              orders = [100 \<mapsto> order1]\<rparr>"

definition env1 :: env where
  "env1 = \<lparr>now = 2000, random = 7, freshId = 101\<rparr>"

definition env2 :: env where
  "env2 = \<lparr>now = 3000, random = 8, freshId = 102\<rparr>"

definition customer1 :: caller where
  "customer1 = \<lparr>uid = 1, role = Customer\<rparr>"

definition deliveredRequest :: status_request where
  "deliveredRequest = \<lparr>sr_status = Delivered, sr_note = None, sr_trackingNumber = None,
     sr_estimatedDelivery = None\<rparr>"

definition confirmedRequest :: status_request where
  "confirmedRequest = \<lparr>sr_status = Confirmed, sr_note = Some ''ok'', sr_trackingNumber = None,
     sr_estimatedDelivery = None\<rparr>"

text \<open>The same shop with the order already delivered, and not paid.\<close>

definition deliveredStore :: store where
  "deliveredStore = store1\<lparr>orders := [100 \<mapsto> order1\<lparr>status := Delivered, isPaid := False,
       isDelivered := True, deliveredAt := Some 1500\<rparr>]\<rparr>"

section \<open>Notions used to state the properties\<close>

text \<open>
  The consistency of a cart: its totals are the sums over its lines, and each
  line's total is its quantity times its unit price.
\<close>

definition cart_inv :: "cart \<Rightarrow> bool" where
  "cart_inv c \<longleftrightarrow>
     totalAmount c = sum_list (map ci_totalPrice (c_items c)) \<and>
     totalItems c = sum_list (map ci_quantity (c_items c)) \<and>
     list_all (\<lambda>it. ci_totalPrice it = ci_quantity it * ci_price it) (c_items c)"

text \<open>The account's cart is stored and consistent.\<close>

definition cart_ok :: "store \<Rightarrow> oid \<Rightarrow> bool" where
  "cart_ok s u = (case carts s u of None \<Rightarrow> False | Some c \<Rightarrow> cart_inv c)"

text \<open>
  A cart line whose product tracks its stock and holds less than the line asks
  for.
\<close>

definition underStocked :: "store \<Rightarrow> cart_item \<Rightarrow> bool" where
  "underStocked s it =
     (case products s (ci_product it) of
        None \<Rightarrow> False
      | Some p \<Rightarrow> trackQuantity (inventory p) \<and> quantity (inventory p) < ci_quantity it)"

text \<open>A cart line that can be ordered: its product exists, is active and has the stock.\<close>

definition lineAvailable :: "store \<Rightarrow> cart_item \<Rightarrow> bool" where
  "lineAvailable s it \<longleftrightarrow> productActive s (ci_product it) \<and> \<not> underStocked s it"

definition insufficientStock :: "error \<Rightarrow> bool" where
  "insufficientStock err =
     (case err of OnlyAvailableFor q n \<Rightarrow> True | OnlyAvailableInStock q \<Rightarrow> True | _ \<Rightarrow> False)"

text \<open>The quantity an order holds of one product, over all its lines.\<close>

definition orderQuantity :: "order_item list \<Rightarrow> oid \<Rightarrow> number" where
  "orderQuantity items pid = sum_list (map oi_quantity (filter (\<lambda>it. oi_product it = pid) items))"

text \<open>A product with its stock changed by \<open>d\<close> when it tracks its stock.\<close>

definition stockChanged :: "number \<Rightarrow> product \<Rightarrow> product" where
  "stockChanged d p =
     (if trackQuantity (inventory p)
      then p\<lparr>inventory := (inventory p)\<lparr>quantity := quantity (inventory p) + d\<rparr>\<rparr>
      else p)"

section \<open>Further example documents\<close>

text \<open>The shop after the webhook has handled the success of intent "pi_1" at time 2000.\<close>

definition intent1 :: payment_intent where
  "intent1 = \<lparr>pi_id = ''pi_1'', pi_orderId = 100\<rparr>"

definition paidStore :: store where
  "paidStore = handlePaymentSuccess env1 intent1 store1"

text \<open>
  Account 2 has no cart.  Account 3 holds one unit of product B, which weighs
  30.  Account 4 holds an inactive product C and more of product B than there
  is.  Account 5 holds two units of product A and more of product B than there
  is.
\<close>

definition customer2 :: caller where
  "customer2 = \<lparr>uid = 2, role = Customer\<rparr>"

definition customer3 :: caller where
  "customer3 = \<lparr>uid = 3, role = Customer\<rparr>"

definition customer4 :: caller where
  "customer4 = \<lparr>uid = 4, role = Customer\<rparr>"

definition productC :: product where
  "productC = \<lparr>p_name = ''C'', p_price = 7, weight_value = 1, images = [],
     inventory = \<lparr>quantity = 9, lowStockThreshold = 10, trackQuantity = True\<rparr>,
     isActive = False, averageRating = 4\<rparr>"

definition lineB :: cart_item where
  "lineB = \<lparr>ci_product = 11, ci_quantity = 1, ci_price = 5, ci_totalPrice = 5\<rparr>"

definition cart3 :: cart where
  "cart3 = \<lparr>c_user = 3, c_items = [lineB], totalItems = 1, totalAmount = 5,
     lastModified = 1000\<rparr>"

definition cart4 :: cart where
  "cart4 = \<lparr>c_user = 4,
     c_items = [\<lparr>ci_product = 12, ci_quantity = 1, ci_price = 7, ci_totalPrice = 7\<rparr>,
                \<lparr>ci_product = 11, ci_quantity = 4, ci_price = 5, ci_totalPrice = 20\<rparr>],
     totalItems = 5, totalAmount = 27, lastModified = 1000\<rparr>"

definition customer5 :: caller where
  "customer5 = \<lparr>uid = 5, role = Customer\<rparr>"

definition cart5 :: cart where
  "cart5 = \<lparr>c_user = 5,
     c_items = [\<lparr>ci_product = 10, ci_quantity = 2, ci_price = 10, ci_totalPrice = 20\<rparr>,
                \<lparr>ci_product = 11, ci_quantity = 4, ci_price = 5, ci_totalPrice = 20\<rparr>],
     totalItems = 6, totalAmount = 40, lastModified = 1000\<rparr>"

definition store2 :: store where
  "store2 = \<lparr>products = [10 \<mapsto> productA, 11 \<mapsto> productB, 12 \<mapsto> productC],
              carts = [1 \<mapsto> cart1, 3 \<mapsto> cart3, 4 \<mapsto> cart4, 5 \<mapsto> cart5],
              orders = [100 \<mapsto> order1]\<rparr>"

definition request1 :: order_request where
  "request1 = \<lparr>or_shippingAddress = address1, or_paymentMethod = Stripe, or_notes = None\<rparr>"

text \<open>
  The first shop after the only approved review of product B has been
  rejected: its rating is 0.
\<close>

definition store3 :: store where
  "store3 = store1\<lparr>products := [10 \<mapsto> productA, 11 \<mapsto> productB\<lparr>averageRating := 0\<rparr>]\<rparr>"

section \<open>Properties\<close>

lemmas order_hook_defs =
  order_save_def deliveredHook_def statusHistoryHook_def orderNumberHook_def

lemmas example_defs =
  store1_def order1_def cart1_def productA_def productB_def address1_def env1_def env2_def
  customer1_def

lemmas example2_defs =
  store2_def cart3_def cart4_def cart5_def lineB_def productC_def customer2_def customer3_def
  customer4_def customer5_def request1_def intent1_def store3_def

subsection \<open>Order lifecycle\<close>

text \<open>
  Claim C7.  A status update to \<open>Delivered\<close> on an existing order succeeds and
  leaves the order delivered: \<open>isDelivered\<close> holds afterwards; an order that was
  not delivered before gets \<open>deliveredAt\<close> stamped with the time of the request,
  and an order that was already delivered keeps the \<open>deliveredAt\<close> it had.
\<close>

theorem delivered_transition_stamps_once:
  assumes "orders s orderId = Some od" and "sr_status req = Delivered"
  shows "\<exists>od'. updateOrderStatus e [] orderId req s =
               (Inr od', s\<lparr>orders := (orders s)(orderId \<mapsto> od')\<rparr>)
           \<and> status od' = Delivered \<and> isDelivered od'
           \<and> (\<not> isDelivered od \<longrightarrow> deliveredAt od' = Some (now e))
           \<and> (isDelivered od \<longrightarrow> deliveredAt od' = deliveredAt od)"
  using assms
  by (simp add: updateOrderStatus_def Let_def order_hook_defs split: option.splits)

text \<open>
  The pending order of the example, delivered at time 2000 and delivered again
  at time 3000: the stamp stays 2000.
\<close>

theorem delivered_transition_stamps_once_witness:
  "orders store1 100 = Some order1 \<and> \<not> isDelivered order1 \<and>
   (\<exists>od1 od2.
      updateOrderStatus env1 [] 100 deliveredRequest store1 =
        (Inr od1, store1\<lparr>orders := (orders store1)(100 \<mapsto> od1)\<rparr>) \<and>
      isDelivered od1 \<and> deliveredAt od1 = Some 2000 \<and>
      updateOrderStatus env2 [] 100 deliveredRequest
          (store1\<lparr>orders := (orders store1)(100 \<mapsto> od1)\<rparr>) =
        (Inr od2, store1\<lparr>orders := (orders store1)(100 \<mapsto> od2)\<rparr>) \<and>
      isDelivered od2 \<and> deliveredAt od2 = Some 2000)"
proof -
  have found: "orders store1 100 = Some order1"
    by (simp add: store1_def)
  have fresh: "\<not> isDelivered order1"
    by (simp add: order1_def)
  have req: "sr_status deliveredRequest = Delivered"
    by (simp add: deliveredRequest_def)
  from delivered_transition_stamps_once [OF found req, of env1] fresh
  obtain od1 where first:
    "updateOrderStatus env1 [] 100 deliveredRequest store1 =
       (Inr od1, store1\<lparr>orders := (orders store1)(100 \<mapsto> od1)\<rparr>)"
    "isDelivered od1" "deliveredAt od1 = Some 2000"
    by (auto simp: env1_def)
  have found1: "orders (store1\<lparr>orders := (orders store1)(100 \<mapsto> od1)\<rparr>) 100 = Some od1"
    by simp
  from delivered_transition_stamps_once [OF found1 req, of env2] first
  obtain od2 where second:
    "updateOrderStatus env2 [] 100 deliveredRequest
        (store1\<lparr>orders := (orders store1)(100 \<mapsto> od1)\<rparr>) =
       (Inr od2, store1\<lparr>orders := (orders store1)(100 \<mapsto> od2)\<rparr>)"
    "isDelivered od2" "deliveredAt od2 = Some 2000"
    by auto
  from found fresh first second show ?thesis by blast
qed

text \<open>
  What a status update and a cancellation append to the history of an order
  whose status they change: the hook's entry, after the controller's own
  entry when there is one.
\<close>

lemma status_update_history:
  assumes "orders s orderId = Some od" and "sr_status req \<noteq> status od"
  shows "\<exists>od'. updateOrderStatus e [] orderId req s =
               (Inr od', s\<lparr>orders := (orders s)(orderId \<mapsto> od')\<rparr>)
           \<and> statusHistory od' =
               statusHistory od @
               (if truthy (sr_note req)
                then [\<lparr>h_status = sr_status req, h_date = now e, h_note = sr_note req\<rparr>,
                      \<lparr>h_status = sr_status req, h_date = now e, h_note = None\<rparr>]
                else [\<lparr>h_status = sr_status req, h_date = now e, h_note = None\<rparr>])"
  using assms
  by (simp add: updateOrderStatus_def Let_def order_hook_defs split: option.splits)

lemma cancellation_history:
  assumes "orders s orderId = Some od" and "cancelOrder u e orderId s = (Inr od', s')"
  shows "\<exists>note. statusHistory od' =
               statusHistory od @
               [\<lparr>h_status = Cancelled, h_date = now e, h_note = Some note\<rparr>,
                \<lparr>h_status = Cancelled, h_date = now e, h_note = None\<rparr>]"
  using assms
  by (auto simp: cancelOrder_def Let_def order_hook_defs split: if_splits prod.splits bool.splits)

text \<open>
  Claim C2, at a concrete order.  The pending order of the example has an empty
  history.  A status update to \<open>Confirmed\<close> that carries the note "ok" leaves
  two entries for the one transition, the controller's (with the note) and
  the hook's (without); so does a cancellation by the owner.
\<close>

theorem status_history_grows_by_two:
  "fst (updateOrderStatus env1 [] 100 confirmedRequest store1) =
     Inr (order1\<lparr>status := Confirmed,
                 statusHistory := [\<lparr>h_status = Confirmed, h_date = 2000, h_note = Some ''ok''\<rparr>,
                                   \<lparr>h_status = Confirmed, h_date = 2000, h_note = None\<rparr>]\<rparr>)
   \<and> fst (cancelOrder customer1 env1 100 store1) =
     Inr (order1\<lparr>status := Cancelled,
                 statusHistory := [\<lparr>h_status = Cancelled, h_date = 2000,
                                     h_note = Some ''Cancelled by customer''\<rparr>,
                                   \<lparr>h_status = Cancelled, h_date = 2000, h_note = None\<rparr>]\<rparr>)"
  by (simp add: updateOrderStatus_def cancelOrder_def Let_def order_hook_defs truthy_def
      example_defs confirmedRequest_def product_valid_def)

subsection \<open>Payment\<close>

text \<open>
  Claim C10.  For an existing order in any status, the webhook's
  \<open>handlePaymentSuccess\<close> stores the order with status \<open>Confirmed\<close>, \<open>isPaid\<close>
  true, the intent's id as \<open>transactionId\<close> and the time of the request as
  \<open>paidAt\<close>; so does \<open>confirmPayment\<close> when the caller owns the order and the
  gateway reports the intent as succeeded.
\<close>

theorem payment_success_forces_confirmed:
  assumes "orders s orderId = Some od"
  shows "(\<exists>od'. orders (handlePaymentSuccess e \<lparr>pi_id = pid, pi_orderId = orderId\<rparr> s) orderId =
                  Some od'
            \<and> status od' = Confirmed \<and> isPaid od'
            \<and> transactionId (paymentInfo od') = Some pid
            \<and> paidAt (paymentInfo od') = Some (now e))
       \<and> (o_user od = uid u \<longrightarrow>
           (\<exists>od'. confirmPayment u e orderId pid (Some ''succeeded'') s =
                  (Inr od', s\<lparr>orders := (orders s)(orderId \<mapsto> od')\<rparr>)
            \<and> status od' = Confirmed \<and> isPaid od'
            \<and> transactionId (paymentInfo od') = Some pid
            \<and> paidAt (paymentInfo od') = Some (now e)))"
  using assms
  by (simp add: handlePaymentSuccess_def confirmPayment_def Let_def order_hook_defs)

text \<open>A delivered order is moved back to \<open>Confirmed\<close> by either path.\<close>

theorem payment_success_forces_confirmed_witness:
  "(\<exists>od. orders deliveredStore 100 = Some od \<and> status od = Delivered \<and> o_user od = uid customer1) \<and>
   (\<exists>od'. orders (handlePaymentSuccess env1 \<lparr>pi_id = ''pi_1'', pi_orderId = 100\<rparr> deliveredStore) 100 =
                  Some od'
            \<and> status od' = Confirmed \<and> isPaid od'
            \<and> transactionId (paymentInfo od') = Some ''pi_1''
            \<and> paidAt (paymentInfo od') = Some 2000) \<and>
   (\<exists>od'. confirmPayment customer1 env1 100 ''pi_1'' (Some ''succeeded'') deliveredStore =
                  (Inr od', deliveredStore\<lparr>orders := (orders deliveredStore)(100 \<mapsto> od')\<rparr>)
            \<and> status od' = Confirmed \<and> isPaid od'
            \<and> transactionId (paymentInfo od') = Some ''pi_1''
            \<and> paidAt (paymentInfo od') = Some 2000)"
proof -
  have found: "orders deliveredStore 100 =
      Some (order1\<lparr>status := Delivered, isPaid := False, isDelivered := True, deliveredAt := Some 1500\<rparr>)"
    by (simp add: deliveredStore_def)
  have own: "o_user (order1\<lparr>status := Delivered, isPaid := False, isDelivered := True,
      deliveredAt := Some 1500\<rparr>) = uid customer1"
    by (simp add: order1_def customer1_def)
  have t: "now env1 = 2000" by (simp add: env1_def)
  from payment_success_forces_confirmed [OF found, of env1 "''pi_1''" customer1] own found t
  show ?thesis by simp
qed

lemma paidStore_order:
  "orders paidStore 100 =
     Some (order1\<lparr>isPaid := True,
                  paymentInfo := \<lparr>pay_method = Stripe, transactionId = Some ''pi_1'', paidAt = Some 2000\<rparr>,
                  status := Confirmed,
                  statusHistory := [\<lparr>h_status = Confirmed, h_date = 2000, h_note = None\<rparr>]\<rparr>)"
  by (simp add: paidStore_def handlePaymentSuccess_def Let_def order_hook_defs example_defs
      intent1_def)

text \<open>
  Claim C3 as stated fails.  The order of the example has been confirmed and
  paid by the success event of intent "pi_1", handled at time 2000.  Handling
  the same event again at time 3000 changes \<open>paidAt\<close> from 2000 to 3000.
\<close>

theorem repeated_success_event_overwrites_paidAt:
  "map_option status (orders paidStore 100) = Some Confirmed \<and>
   map_option isPaid (orders paidStore 100) = Some True \<and>
   map_option (paidAt \<circ> paymentInfo) (orders paidStore 100) = Some (Some 2000) \<and>
   map_option (paidAt \<circ> paymentInfo) (orders (handlePaymentSuccess env2 intent1 paidStore) 100) =
     Some (Some 3000)"
  by (simp add: paidStore_order handlePaymentSuccess_def Let_def order_hook_defs
      intent1_def env2_def order1_def)

text \<open>
  Claim C3, amended.  For an order that is confirmed and paid with the
  intent's id as its transaction id, handling the success event of that intent
  again leaves status, \<open>isPaid\<close>, \<open>transactionId\<close> and the status history as
  they are (no entry is appended) and sets \<open>paidAt\<close> to the time of this
  handling.
\<close>

theorem repeated_success_event:
  assumes "orders s orderId = Some od" and "status od = Confirmed" and "isPaid od"
    and "transactionId (paymentInfo od) = Some pid"
  shows "\<exists>od'. orders (handlePaymentSuccess e \<lparr>pi_id = pid, pi_orderId = orderId\<rparr> s) orderId = Some od'
           \<and> status od' = Confirmed \<and> isPaid od'
           \<and> transactionId (paymentInfo od') = transactionId (paymentInfo od)
           \<and> statusHistory od' = statusHistory od
           \<and> paidAt (paymentInfo od') = Some (now e)"
  using assms
  by (simp add: handlePaymentSuccess_def Let_def order_hook_defs)

theorem repeated_success_event_witness:
  "\<exists>od od'. orders paidStore 100 = Some od \<and> status od = Confirmed \<and> isPaid od
     \<and> transactionId (paymentInfo od) = Some ''pi_1''
     \<and> orders (handlePaymentSuccess env2 intent1 paidStore) 100 = Some od'
     \<and> status od' = Confirmed \<and> isPaid od'
     \<and> transactionId (paymentInfo od') = Some ''pi_1''
     \<and> statusHistory od' = [\<lparr>h_status = Confirmed, h_date = 2000, h_note = None\<rparr>]
     \<and> paidAt (paymentInfo od') = Some 3000"
  using repeated_success_event [OF paidStore_order, of "''pi_1''" env2]
  by (simp add: paidStore_order intent1_def env2_def order1_def)

subsection \<open>Cart\<close>

lemma foldl_plus_sum_list:
  fixes a :: number
  shows "foldl (\<lambda>total it. total + f it) a xs = a + sum_list (map f xs)"
  by (induction xs arbitrary: a) (simp_all add: add.assoc)

lemma cart_save_inv: "cart_inv (cart_save e c)"
  by (simp add: cart_inv_def cart_save_def cartHook_def cartItemHook_def foldl_plus_sum_list
      list_all_iff o_def)

lemma cart_save_consistent:
  assumes "cart_inv c"
  shows "cart_save e c = c\<lparr>lastModified := now e\<rparr>"
proof -
  have "map cartItemHook (c_items c) = c_items c"
    using assms by (auto simp: cart_inv_def list_all_iff cartItemHook_def intro: map_idI)
  with assms show ?thesis
    by (simp add: cart_save_def cartHook_def cart_inv_def foldl_plus_sum_list)
qed

text \<open>
  Claim C9 as stated fails.  Account 2 has no cart document; removing product
  10 for it is answered with "Cart not found".
\<close>

theorem remove_without_cart_fails:
  "removeFromCart customer2 env1 10 store2 = (Inl CartNotFound, store2)"
  by (simp add: removeFromCart_def store2_def customer2_def)

text \<open>
  Claim C9, amended.  For an account without a cart document the removal fails
  with "Cart not found" and the store is unchanged.  For an account with a
  cart that holds no line of the product (an empty cart included) the removal
  succeeds and saves the cart: product, quantity and unit price of every line
  are unchanged, and a cart that was consistent is unchanged but for
  \<open>lastModified\<close>, which becomes the time of the request.
\<close>

theorem remove_absent_line:
  "(carts s (uid u) = None \<longrightarrow> removeFromCart u e pid s = (Inl CartNotFound, s)) \<and>
   (\<forall>c. carts s (uid u) = Some c \<and> list_all (\<lambda>it. ci_product it \<noteq> pid) (c_items c) \<longrightarrow>
      removeFromCart u e pid s =
        (Inr (cart_save e c), s\<lparr>carts := (carts s)(uid u \<mapsto> cart_save e c)\<rparr>) \<and>
      map ci_product (c_items (cart_save e c)) = map ci_product (c_items c) \<and>
      map ci_quantity (c_items (cart_save e c)) = map ci_quantity (c_items c) \<and>
      map ci_price (c_items (cart_save e c)) = map ci_price (c_items c) \<and>
      (cart_inv c \<longrightarrow> cart_save e c = c\<lparr>lastModified := now e\<rparr>))"
proof -
  have keep: "filter (\<lambda>it. ci_product it \<noteq> pid) xs = xs"
    if "list_all (\<lambda>it. ci_product it \<noteq> pid) xs" for xs :: "cart_item list"
    using that by (simp add: list_all_iff)
  have lines: "map ci_product (c_items (cart_save e c)) = map ci_product (c_items c) \<and>
      map ci_quantity (c_items (cart_save e c)) = map ci_quantity (c_items c) \<and>
      map ci_price (c_items (cart_save e c)) = map ci_price (c_items c)" for c
    by (simp add: cart_save_def cartHook_def cartItemHook_def o_def)
  show ?thesis
    using lines by (auto simp: removeFromCart_def Let_def keep cart_save_consistent)
qed

theorem remove_absent_line_witness:
  "carts store2 (uid customer3) = Some cart3 \<and> cart_inv cart3 \<and>
   removeFromCart customer3 env1 10 store2 =
     (Inr (cart3\<lparr>lastModified := 2000\<rparr>),
      store2\<lparr>carts := (carts store2)(3 \<mapsto> cart3\<lparr>lastModified := 2000\<rparr>)\<rparr>) \<and>
   carts store2 (uid customer2) = None \<and>
   removeFromCart customer2 env2 10 store2 = (Inl CartNotFound, store2)"
proof -
  have c: "carts store2 (uid customer3) = Some cart3"
    by (simp add: store2_def customer3_def)
  have absent: "list_all (\<lambda>it. ci_product it \<noteq> 10) (c_items cart3)"
    by (simp add: cart3_def lineB_def)
  have inv: "cart_inv cart3"
    by (simp add: cart_inv_def cart3_def lineB_def)
  have none: "carts store2 (uid customer2) = None"
    by (simp add: store2_def customer2_def)
  from remove_absent_line [of store2 customer3 env1 10] c absent inv
  have "removeFromCart customer3 env1 10 store2 =
     (Inr (cart3\<lparr>lastModified := 2000\<rparr>),
      store2\<lparr>carts := (carts store2)(3 \<mapsto> cart3\<lparr>lastModified := 2000\<rparr>)\<rparr>)"
    by (simp add: env1_def customer3_def)
  moreover from remove_absent_line [of store2 customer2 env2 10] none
  have "removeFromCart customer2 env2 10 store2 = (Inl CartNotFound, store2)"
    by simp
  ultimately show ?thesis using c inv none by simp
qed

subsection \<open>Order placement\<close>

lemmas placement_defs = placementDocument_def orderDocument_def

text \<open>
  Claim C8 as stated fails.  Account 3 orders one unit of product B, which
  weighs 30 and costs 5.  The order document that \<open>createOrder\<close> builds and
  passes to \<open>Order.create\<close> carries the flat fee 10 as its shipping price,
  where the weight-tier policy of \<open>calculateShipping\<close> gives 30 for the same
  cart.
\<close>

theorem placement_ignores_weight:
  "map_sum id (shippingPrice \<circ> snd) (placementDocument customer3 [] request1 store2) = Inr 10 \<and>
   calculateShipping (map (\<lambda>it. (it, productB)) (c_items cart3)) = 30"
  by (simp add: placement_defs Let_def orderItem_def example_defs example2_defs
      calculateShipping_def Math_round_def)

text \<open>
  Claim C8, amended.  Whenever \<open>createOrder\<close> gets as far as building the order
  document, the shipping price it computes for it is 0 when the items price
  is above 100 and the flat fee 10 otherwise; the weight of the items plays
  no part and no cap applies.
\<close>

theorem placement_shipping_price:
  assumes "placementDocument u errors req s = Inr (cart, doc)"
  shows "shippingPrice doc = (if itemsPrice doc > 100 then 0 else 10)"
  using assms
  by (auto simp: placement_defs Let_def
      split: if_splits option.splits sum.splits prod.splits)

theorem placement_shipping_price_witness:
  "\<exists>cart doc. placementDocument customer3 [] request1 store2 = Inr (cart, doc) \<and>
      itemsPrice doc = 5 \<and> shippingPrice doc = 10"
proof -
  obtain cart doc where r: "placementDocument customer3 [] request1 store2 = Inr (cart, doc)"
    and p: "itemsPrice doc = 5"
    by (simp add: placement_defs Let_def orderItem_def example_defs example2_defs)
  from placement_shipping_price [OF r] p have "shippingPrice doc = 10" by simp
  with r p show ?thesis by blast
qed

lemma orderLines_step:
  assumes "lineAvailable s it"
  shows "\<exists>p. products s (ci_product it) = Some p \<and>
           orderLines s (it # items) acc ip =
             orderLines s items (acc @ [orderItem p it]) (ip + oi_totalPrice (orderItem p it))"
  using assms
  by (auto simp: lineAvailable_def productActive_def underStocked_def split: option.splits)

lemma orderLines_stop_exact:
  assumes "\<not> lineAvailable s it"
  shows "orderLines s (it # items) acc ip =
           Inl (case products s (ci_product it) of
                  None \<Rightarrow> ProductUnavailable ''unknown''
                | Some p \<Rightarrow>
                    if isActive p then OnlyAvailableFor (quantity (inventory p)) (p_name p)
                    else ProductUnavailable (if p_name p = [] then ''unknown'' else p_name p))"
  using assms
  by (auto simp: lineAvailable_def productActive_def underStocked_def split: option.splits)

lemma orderLines_fail_exact:
  assumes "list_ex (\<lambda>it. \<not> lineAvailable s it) items"
  shows "\<exists>it. find (\<lambda>it. \<not> lineAvailable s it) items = Some it \<and>
           orderLines s items acc ip =
             Inl (case products s (ci_product it) of
                    None \<Rightarrow> ProductUnavailable ''unknown''
                  | Some p \<Rightarrow>
                      if isActive p then OnlyAvailableFor (quantity (inventory p)) (p_name p)
                      else ProductUnavailable (if p_name p = [] then ''unknown'' else p_name p))"
  using assms
proof (induction items arbitrary: acc ip)
  case Nil
  then show ?case by simp
next
  case (Cons it items)
  show ?case
  proof (cases "lineAvailable s it")
    case True
    with Cons.prems have rest: "list_ex (\<lambda>it. \<not> lineAvailable s it) items" by simp
    from orderLines_step [OF True] obtain p where
      step: "orderLines s (it # items) acc ip =
             orderLines s items (acc @ [orderItem p it]) (ip + oi_totalPrice (orderItem p it))"
      by blast
    from Cons.IH [OF rest] True show ?thesis
      unfolding step by simp
  next
    case False
    from orderLines_stop_exact [OF False] False show ?thesis by simp
  qed
qed

text \<open>
  Claim C1 as stated fails.  The cart of account 4 has an under-stocked line
  (4 units of product B, of which there are 3) after a line for the inactive
  product C.  Placement fails, with the store unchanged, but the error is the
  one of the first line: product C is no longer available.
\<close>

theorem placement_reports_first_failing_line:
  "carts store2 (uid customer4) = Some cart4 \<and>
   list_ex (underStocked store2) (c_items cart4) \<and>
   createOrder customer4 env1 [] request1 store2 = (Inl (ProductUnavailable ''C''), store2) \<and>
   \<not> insufficientStock (ProductUnavailable ''C'')"
  by (simp add: createOrder_def placement_defs example_defs example2_defs underStocked_def
      insufficientStock_def)

text \<open>
  Claim C1, amended.  When the account's cart has an under-stocked line,
  placement fails and the store is unchanged: no order is created, no stock
  changes and the cart stays as it is.  The error is the validation error
  when the request fails validation.  Otherwise it is the error of the first
  cart line that fails a check: product-unavailable (with the product's name,
  or "unknown") when that line's product is missing or inactive, and
  insufficient-stock (with the quantity in stock and the product's name) when
  it is active.  So the error is the insufficient-stock error exactly when the
  request passes validation and the first failing line names an active
  product.
\<close>

theorem placement_understocked_fails:
  assumes "carts s (uid u) = Some cart" and "list_ex (underStocked s) (c_items cart)"
  shows "\<exists>it err. find (\<lambda>it. \<not> lineAvailable s it) (c_items cart) = Some it
           \<and> createOrder u e errors req s = (Inl err, s)
           \<and> (errors \<noteq> [] \<longrightarrow> err = ValidationFailed errors)
           \<and> (errors = [] \<and> products s (ci_product it) = None \<longrightarrow>
                err = ProductUnavailable ''unknown'')
           \<and> (\<forall>p. errors = [] \<and> products s (ci_product it) = Some p \<and> \<not> isActive p \<longrightarrow>
                err = ProductUnavailable (if p_name p = [] then ''unknown'' else p_name p))
           \<and> (\<forall>p. errors = [] \<and> products s (ci_product it) = Some p \<and> isActive p \<longrightarrow>
                err = OnlyAvailableFor (quantity (inventory p)) (p_name p))
           \<and> (insufficientStock err \<longleftrightarrow> errors = [] \<and> productActive s (ci_product it))"
proof -
  from assms(2) have bad: "list_ex (\<lambda>it. \<not> lineAvailable s it) (c_items cart)"
    by (auto simp: list_ex_iff lineAvailable_def)
  then have nonempty: "c_items cart \<noteq> []" by auto
  from orderLines_fail_exact [OF bad, of "[]" 0] obtain it where
    first: "find (\<lambda>it. \<not> lineAvailable s it) (c_items cart) = Some it" and
    lines: "orderLines s (c_items cart) [] 0 =
       Inl (case products s (ci_product it) of
              None \<Rightarrow> ProductUnavailable ''unknown''
            | Some p \<Rightarrow>
                if isActive p then OnlyAvailableFor (quantity (inventory p)) (p_name p)
                else ProductUnavailable (if p_name p = [] then ''unknown'' else p_name p))"
    by blast
  let ?err = "if errors \<noteq> [] then ValidationFailed errors
              else (case products s (ci_product it) of
                      None \<Rightarrow> ProductUnavailable ''unknown''
                    | Some p \<Rightarrow>
                        if isActive p then OnlyAvailableFor (quantity (inventory p)) (p_name p)
                        else ProductUnavailable (if p_name p = [] then ''unknown'' else p_name p))"
  from assms(1) nonempty lines have run: "createOrder u e errors req s = (Inl ?err, s)"
    by (simp add: createOrder_def placementDocument_def)
  have kind: "insufficientStock ?err \<longleftrightarrow> errors = [] \<and> productActive s (ci_product it)"
    by (simp add: insufficientStock_def productActive_def split: option.splits)
  have cases: "(errors \<noteq> [] \<longrightarrow> ?err = ValidationFailed errors)
      \<and> (errors = [] \<and> products s (ci_product it) = None \<longrightarrow> ?err = ProductUnavailable ''unknown'')
      \<and> (\<forall>p. errors = [] \<and> products s (ci_product it) = Some p \<and> \<not> isActive p \<longrightarrow>
            ?err = ProductUnavailable (if p_name p = [] then ''unknown'' else p_name p))
      \<and> (\<forall>p. errors = [] \<and> products s (ci_product it) = Some p \<and> isActive p \<longrightarrow>
            ?err = OnlyAvailableFor (quantity (inventory p)) (p_name p))"
    by simp
  from first run cases kind show ?thesis by blast
qed

theorem placement_understocked_fails_witness:
  "carts store2 (uid customer5) = Some cart5 \<and>
   list_ex (underStocked store2) (c_items cart5) \<and>
   createOrder customer5 env1 [] request1 store2 = (Inl (OnlyAvailableFor 3 ''B''), store2)"
proof -
  have c: "carts store2 (uid customer5) = Some cart5"
    by (simp add: store2_def customer5_def)
  have u: "list_ex (underStocked store2) (c_items cart5)"
    by (simp add: example_defs example2_defs underStocked_def)
  have f: "find (\<lambda>it. \<not> lineAvailable store2 it) (c_items cart5) =
      Some \<lparr>ci_product = 11, ci_quantity = 4, ci_price = 5, ci_totalPrice = 20\<rparr>"
    by (simp add: example_defs example2_defs lineAvailable_def productActive_def
        underStocked_def)
  have p: "products store2 11 = Some productB" "isActive productB"
    "quantity (inventory productB) = 3" "p_name productB = ''B''"
    by (simp_all add: store2_def productB_def)
  from placement_understocked_fails [OF c u, of env1 "[]" request1] f p
  have "createOrder customer5 env1 [] request1 store2 = (Inl (OnlyAvailableFor 3 ''B''), store2)"
    by auto
  with c u show ?thesis by simp
qed

text \<open>
  The document built by \<open>createOrder\<close> has no order number, so \<open>Order.create\<close>
  rejects it: no request places an order, and none changes the store.
\<close>

lemma placementDocument_no_number:
  assumes "placementDocument u errors req s = Inr (cart, doc)"
  shows "orderNumber doc = []"
  using assms
  by (auto simp: placement_defs Let_def split: if_splits option.splits sum.splits prod.splits)

lemma createOrder_never_places:
  "isl (fst (createOrder u e errors req s)) \<and> snd (createOrder u e errors req s) = s"
proof (cases "placementDocument u errors req s")
  case (Inl err)
  then show ?thesis by (simp add: createOrder_def)
next
  case (Inr r)
  obtain cart doc where r: "r = (cart, doc)" by (cases r)
  with Inr have "orderNumber doc = []" by (simp add: placementDocument_no_number)
  then have "order_create e doc = None" by (simp add: order_create_def order_valid_def)
  with Inr r show ?thesis by (simp add: createOrder_def)
qed

text \<open>
  Claim C4, at the example of the specification.  The cart
  [(A, 2, 10), (B, 1, 5)] of account 1 passes every check, and the document
  built for it has the items price 25.  It has no order number: the schema
  requires one, and the hook that generates it runs only after validation.
  \<open>Order.create\<close> throws and \<open>createOrder\<close> answers with status 500.  No
  order is stored, the cart keeps its lines and no stock changes.
\<close>

theorem placement_answers_server_error:
  "carts store1 (uid customer1) = Some cart1 \<and>
   map_sum id (itemsPrice \<circ> snd) (placementDocument customer1 [] request1 store1) = Inr 25 \<and>
   createOrder customer1 env1 [] request1 store1 = (Inl ServerError, store1)"
  by (simp add: createOrder_def placement_defs Let_def orderItem_def order_create_def
      order_valid_def example_defs request1_def)

subsection \<open>Cancellation\<close>

text \<open>
  When every product passes its validators and no line has a negative
  quantity, every save of the loop passes, and the cancellation does what
  claim C5 says.
\<close>

lemma stockChanged_zero: "stockChanged 0 p = p"
  by (simp add: stockChanged_def)

lemma restoreStock_lookup:
  assumes "restoreStock ps items = (True, ps')"
  shows "ps' pid = map_option (stockChanged (orderQuantity items pid)) (ps pid)"
  using assms
proof (induction items arbitrary: ps)
  case Nil
  then show ?case
    by (simp add: orderQuantity_def stockChanged_zero option.map_ident)
next
  case (Cons it items)
  show ?case
  proof (cases "ps (oi_product it)")
    case None
    with Cons.prems have "restoreStock ps items = (True, ps')" by simp
    from Cons.IH [OF this] None show ?thesis
      by (cases "oi_product it = pid") (simp_all add: orderQuantity_def)
  next
    case (Some p)
    show ?thesis
    proof (cases "trackQuantity (inventory p)")
      case False
      with Some Cons.prems have "restoreStock ps items = (True, ps')" by simp
      from Cons.IH [OF this] Some False show ?thesis
        by (cases "oi_product it = pid") (simp_all add: orderQuantity_def stockChanged_def)
    next
      case True
      let ?p = "p\<lparr>inventory := (inventory p)\<lparr>quantity := quantity (inventory p) + oi_quantity it\<rparr>\<rparr>"
      from Some True Cons.prems
      have "restoreStock (ps(oi_product it \<mapsto> ?p)) items = (True, ps')"
        by (simp add: Let_def split: if_splits)
      from Cons.IH [OF this] Some True show ?thesis
        by (cases "oi_product it = pid")
          (simp_all add: orderQuantity_def stockChanged_def add.assoc)
    qed
  qed
qed

lemma restoreStock_valid:
  assumes "\<And>pid p. ps pid = Some p \<Longrightarrow> product_valid p"
    and "list_all (\<lambda>it. 0 \<le> oi_quantity it) items"
  shows "fst (restoreStock ps items)"
  using assms
proof (induction items arbitrary: ps)
  case Nil
  then show ?case by simp
next
  case (Cons it items)
  then have q: "0 \<le> oi_quantity it" and rest: "list_all (\<lambda>it. 0 \<le> oi_quantity it) items"
    by simp_all
  show ?case
  proof (cases "ps (oi_product it)")
    case None
    with Cons.IH [OF Cons.prems(1) rest] show ?thesis by simp
  next
    case (Some p)
    let ?p = "p\<lparr>inventory := (inventory p)\<lparr>quantity := quantity (inventory p) + oi_quantity it\<rparr>\<rparr>"
    from Cons.prems(1) [OF Some] q have v: "product_valid ?p"
      by (simp add: product_valid_def)
    have "fst (restoreStock (ps(oi_product it \<mapsto> ?p)) items)"
    proof (rule Cons.IH [OF _ rest])
      fix pid p'
      assume "(ps(oi_product it \<mapsto> ?p)) pid = Some p'"
      with v Cons.prems(1) show "product_valid p'"
        by (cases "pid = oi_product it") auto
    qed
    moreover have "fst (restoreStock ps items)"
      by (rule Cons.IH [OF Cons.prems(1) rest])
    ultimately show ?thesis using Some v by (simp add: Let_def)
  qed
qed

lemma cancellation_when_saves_pass:
  assumes "orders s orderId = Some od" and "o_user od = uid u \<or> role u = Admin"
    and "\<And>pid p. products s pid = Some p \<Longrightarrow> product_valid p"
    and "list_all (\<lambda>it. 0 \<le> oi_quantity it) (o_items od)"
  shows "(status od \<in> {Pending, Confirmed} \<longrightarrow>
           (\<exists>od' s'. cancelOrder u e orderId s = (Inr od', s')
              \<and> orders s' orderId = Some od' \<and> status od' = Cancelled
              \<and> (\<forall>pid. products s' pid =
                     map_option (stockChanged (orderQuantity (o_items od) pid)) (products s pid))))
       \<and> (status od \<notin> {Pending, Confirmed} \<longrightarrow>
           cancelOrder u e orderId s = (Inl CannotBeCancelled, s))"
proof -
  from restoreStock_valid [of "products s" "o_items od", OF assms(3,4)]
  obtain ps where r: "restoreStock (products s) (o_items od) = (True, ps)"
    by (cases "restoreStock (products s) (o_items od)") auto
  from restoreStock_lookup [OF r]
  have "\<forall>pid. ps pid = map_option (stockChanged (orderQuantity (o_items od) pid)) (products s pid)"
    by simp
  with assms(1,2) r show ?thesis
    by (auto simp: cancelOrder_def Let_def order_hook_defs)
qed

text \<open>
  Claim C5, at a concrete order.  In the shop where the rating of product B
  is 0, the owner cancels the pending order [(A, 2), (B, 1)].  The stock of A
  is raised from 5 to 7 and saved.  The save of B fails the minimum 1 of the
  rating.  The handler answers with status 500; the order, which is saved
  only after the loop, is still pending, and the stock of A stays raised.
\<close>

theorem cancellation_fails_on_unrated_product:
  "map_option status (orders store3 100) = Some Pending \<and>
   map_option o_user (orders store3 100) = Some (uid customer1) \<and>
   cancelOrder customer1 env1 100 store3 =
     (Inl ServerError,
      store3\<lparr>products := (products store3)
         (10 \<mapsto> productA\<lparr>inventory := (inventory productA)\<lparr>quantity := 7\<rparr>\<rparr>)\<rparr>)"
  by (simp add: cancelOrder_def Let_def store3_def example_defs product_valid_def)

subsection \<open>Cart totals\<close>

lemma cart_ok_saved: "cart_ok (s\<lparr>carts := (carts s)(u \<mapsto> cart_save e c)\<rparr>) u"
  by (simp add: cart_ok_def cart_save_inv)

lemma cart_create_inv: "cart_inv (cart_create e u)"
  by (simp add: cart_create_def cart_save_inv)

lemma getCart_inv:
  "carts (snd (getCart u e s)) (uid u) = carts s (uid u) \<or> cart_ok (snd (getCart u e s)) (uid u)"
  by (auto simp: getCart_def findOrCreateCart_def Let_def cart_ok_def cart_save_inv
      cart_create_inv split: option.splits)

lemma addToCart_inv:
  "\<not> isl (fst (addToCart u e errors pid qty s)) \<Longrightarrow>
   cart_ok (snd (addToCart u e errors pid qty s)) (uid u)"
  by (auto simp: addToCart_def findOrCreateCart_def Let_def cart_ok_def cart_save_inv
      split: option.splits if_splits)

lemma updateCartItem_inv:
  "\<not> isl (fst (updateCartItem u e errors pid qty s)) \<Longrightarrow>
   cart_ok (snd (updateCartItem u e errors pid qty s)) (uid u)"
  by (auto simp: updateCartItem_def Let_def cart_ok_def cart_save_inv
      split: option.splits if_splits)

lemma removeFromCart_inv:
  "\<not> isl (fst (removeFromCart u e pid s)) \<Longrightarrow>
   cart_ok (snd (removeFromCart u e pid s)) (uid u)"
  by (auto simp: removeFromCart_def Let_def cart_ok_def cart_save_inv split: option.splits)

lemma clearCart_inv: "cart_ok (snd (clearCart u e s)) (uid u)"
  by (auto simp: clearCart_def findOrCreateCart_def Let_def cart_ok_def cart_save_inv
      split: option.splits)

lemma syncCart_inv:
  "\<not> isl (fst (syncCart u e errors lines s)) \<Longrightarrow>
   cart_ok (snd (syncCart u e errors lines s)) (uid u)"
  by (auto simp: syncCart_def findOrCreateCart_def Let_def cart_ok_def cart_save_inv
      split: option.splits if_splits prod.splits)

lemma createOrder_inv:
  "\<not> isl (fst (createOrder u e errors req s)) \<Longrightarrow>
   cart_ok (snd (createOrder u e errors req s)) (uid u)"
  by (auto simp: createOrder_def Let_def cart_ok_def cart_save_inv
      split: option.splits if_splits sum.splits prod.splits bool.splits)

text \<open>
  Claim C6.  Whatever the store holds before, the cart an operation has saved
  is consistent: \<open>totalAmount\<close> is the sum of the lines' \<open>totalPrice\<close>,
  \<open>totalItems\<close> the sum of their quantities, and each line's \<open>totalPrice\<close> its
  quantity times its unit price.  This holds after every successful
  \<open>addToCart\<close>, \<open>updateCartItem\<close>, \<open>removeFromCart\<close>, \<open>clearCart\<close> and
  \<open>syncCart\<close>, after the clearing of the cart by a successful \<open>createOrder\<close>,
  and after \<open>getCart\<close> whenever it writes the cart (it creates or prunes it;
  otherwise it leaves the stored cart as it is).
\<close>

theorem cart_consistent_after_every_operation:
  "(carts (snd (getCart u e s)) (uid u) = carts s (uid u) \<or>
      cart_ok (snd (getCart u e s)) (uid u))
   \<and> (\<not> isl (fst (addToCart u e errors pid qty s)) \<longrightarrow>
        cart_ok (snd (addToCart u e errors pid qty s)) (uid u))
   \<and> (\<not> isl (fst (updateCartItem u e errors pid qty s)) \<longrightarrow>
        cart_ok (snd (updateCartItem u e errors pid qty s)) (uid u))
   \<and> (\<not> isl (fst (removeFromCart u e pid s)) \<longrightarrow>
        cart_ok (snd (removeFromCart u e pid s)) (uid u))
   \<and> cart_ok (snd (clearCart u e s)) (uid u)
   \<and> (\<not> isl (fst (syncCart u e errors lines s)) \<longrightarrow>
        cart_ok (snd (syncCart u e errors lines s)) (uid u))
   \<and> (\<not> isl (fst (createOrder u e errors req s)) \<longrightarrow>
        cart_ok (snd (createOrder u e errors req s)) (uid u))"
  using getCart_inv [of u e s] addToCart_inv [of u e errors pid qty s]
    updateCartItem_inv [of u e errors pid qty s] removeFromCart_inv [of u e pid s]
    clearCart_inv [of u e s] syncCart_inv [of u e errors lines s]
    createOrder_inv [of u e errors req s]
  by blast

text \<open>
  One run of each cart operation: \<open>getCart\<close> prunes the inactive product C
  from the cart of account 4, \<open>clearCart\<close> creates the cart of account 2, the
  others act on the cart of account 3.  \<open>createOrder\<close> has no run that gets
  as far as clearing the cart (see claim C4).
\<close>

theorem cart_consistent_after_every_operation_witness:
  "carts (snd (getCart customer4 env1 store2)) 4 \<noteq> carts store2 4
   \<and> cart_ok (snd (getCart customer4 env1 store2)) 4
   \<and> \<not> isl (fst (addToCart customer3 env1 [] 10 1 store2))
   \<and> cart_ok (snd (addToCart customer3 env1 [] 10 1 store2)) 3
   \<and> \<not> isl (fst (updateCartItem customer3 env1 [] 11 2 store2))
   \<and> cart_ok (snd (updateCartItem customer3 env1 [] 11 2 store2)) 3
   \<and> \<not> isl (fst (removeFromCart customer3 env1 11 store2))
   \<and> cart_ok (snd (removeFromCart customer3 env1 11 store2)) 3
   \<and> cart_ok (snd (clearCart customer2 env1 store2)) 2
   \<and> \<not> isl (fst (syncCart customer3 env1 [] [(10, 1), (12, 1)] store2))
   \<and> cart_ok (snd (syncCart customer3 env1 [] [(10, 1), (12, 1)] store2)) 3"
proof -
  have g: "carts (snd (getCart customer4 env1 store2)) 4 \<noteq> carts store2 4"
    by (simp add: getCart_def findOrCreateCart_def productActive_def Let_def cart_save_def
        cartHook_def cartItemHook_def example_defs example2_defs)
  have a: "\<not> isl (fst (addToCart customer3 env1 [] 10 1 store2))"
    by (simp add: addToCart_def findOrCreateCart_def Let_def example_defs example2_defs)
  have up: "\<not> isl (fst (updateCartItem customer3 env1 [] 11 2 store2))"
    by (simp add: updateCartItem_def Let_def example_defs example2_defs)
  have r: "\<not> isl (fst (removeFromCart customer3 env1 11 store2))"
    by (simp add: removeFromCart_def Let_def example_defs example2_defs)
  have sy: "\<not> isl (fst (syncCart customer3 env1 [] [(10, 1), (12, 1)] store2))"
    by (simp add: syncCart_def findOrCreateCart_def Let_def example_defs example2_defs
        split: prod.splits)
  have u: "uid customer1 = 1" "uid customer2 = 2" "uid customer3 = 3" "uid customer4 = 4"
    by (simp_all add: customer1_def example2_defs)
  from cart_consistent_after_every_operation
    [where u = customer4 and e = env1 and s = store2] g u
  have "cart_ok (snd (getCart customer4 env1 store2)) 4" by auto
  moreover
  from cart_consistent_after_every_operation
    [where u = customer3 and e = env1 and s = store2 and errors = "[]" and pid = 10 and qty = 1]
    a u
  have "cart_ok (snd (addToCart customer3 env1 [] 10 1 store2)) 3" by auto
  moreover
  from cart_consistent_after_every_operation
    [where u = customer3 and e = env1 and s = store2 and errors = "[]" and pid = 11 and qty = 2
       and lines = "[(10, 1), (12, 1)]"]
    up r sy u
  have "cart_ok (snd (updateCartItem customer3 env1 [] 11 2 store2)) 3"
    "cart_ok (snd (removeFromCart customer3 env1 11 store2)) 3"
    "cart_ok (snd (syncCart customer3 env1 [] [(10, 1), (12, 1)] store2)) 3"
    by auto
  moreover
  from cart_consistent_after_every_operation
    [where u = customer2 and e = env1 and s = store2] u
  have "cart_ok (snd (clearCart customer2 env1 store2)) 2" by auto
  ultimately show ?thesis using g a up r sy by simp
qed

end
